theory Spec2Isabelle
  imports Complex_Main
begin

section \<open>The panel resize handler: data model\<close>

text \<open>
  The repository holds two versions of the custom element \<open>panel-resize-handler\<close>:
  the component with \<open>initializeFromAttributes\<close> and \<open>getTargetElement\<close> (called the
  component below), and \<open>handlers/resizeHandlers.ts\<close>, which reads the \<open>resize\<close>
  attribute in every handler and reacts to attribute changes (its definitions carry the
  suffix \<open>_rh\<close>). Both share \<open>throttle\<close>.

  Pixel quantities are JavaScript numbers, that is IEEE 754 doubles. They are modelled as
  the reals they denote. \<open>Math.max\<close>, \<open>Math.min\<close> and the comparisons are exact on
  doubles. The quotient and the product in \<open>window.innerWidth * (maxWidthPercent / 100)\<close>
  are rounded as the machine rounds them (\<open>roundToDouble\<close> below): \<open>400 * (28 / 100)\<close>
  is a little more than 112. The sums and differences of pointer positions and box widths
  are taken exactly, which is what the machine computes for multiples of a small power of
  two far below \<open>2 ^ 53\<close>. \<open>NaN\<close> arises only as the result of \<open>parseInt\<close>, which
  is an \<open>int option\<close> here.
\<close>

datatype error = TypeError

type_synonym 'a result = "error + 'a"

definition andThen :: "'a result \<Rightarrow> ('a \<Rightarrow> 'b result) \<Rightarrow> 'b result" where
  "andThen r f = (case r of Inl e \<Rightarrow> Inl e | Inr x \<Rightarrow> f x)"

text \<open>
  A sibling element: the two inline style properties the handlers write, and the width
  of its layout box, which \<open>getBoundingClientRect().width\<close> reads. The layout engine
  that turns \<open>flex-basis\<close> into a box width is not part of the program.
\<close>

record element =
  flexBasis :: "real option"
  display :: string
  rectWidth :: real

datatype direction = ResizeLeft | ResizeRight

text \<open>References to the two sibling objects.\<close>

datatype sibling = PreviousElementSibling | NextElementSibling

text \<open>
  Function objects that are registered as listeners. The five handlers are bound once in
  the constructor, so each is one object. Every call of \<open>throttle\<close> returns a new
  arrow function; \<open>ThrottledFn k\<close> is the \<open>k\<close>-th one created.
\<close>

datatype callback =
  HandleMouseEnterFn | HandleMouseLeaveFn | HandleMouseDownFn
  | HandleMouseMoveFn | HandleMouseUpFn | ThrottledFn nat

text \<open>
  What the handlers print: an error message (its text without quotation marks and line
  breaks), or the value of a \<open>flexBasis\<close>.
\<close>

datatype log = ConsoleError string | ConsoleLog "real option"

text \<open>
  The element's fields, its attributes and own listeners, its two siblings, and the parts
  of \<open>document\<close> and \<open>window\<close> the handlers touch. \<open>closures ! k\<close> is the variable
  \<open>inThrottle\<close> captured by \<open>ThrottledFn k\<close>; \<open>timers\<close> holds the pending
  \<open>setTimeout\<close> callbacks as (due time, closure).
\<close>

record page =
  isDragging :: bool
  initialX :: real
  currentSiblingWidth :: real
  minWidth :: real
  maxWidthPercent :: real
  defaultWidth :: real
  resize :: "direction option"
  isCollapsable :: bool
  isPanelCollapsed :: bool
  attributes :: "(string \<times> string) list"
  backgroundColor :: string
  rendered :: bool
  listeners :: "(string \<times> callback) list"
  previousElementSibling :: "element option"
  nextElementSibling :: "element option"
  bodyCursor :: string
  documentListeners :: "(string \<times> callback) list"
  windowListeners :: "(string \<times> callback) list"
  innerWidth :: real
  console :: "log list"
  closures :: "bool list"
  timers :: "(nat \<times> nat) list"

definition COLOR_HOVER_BG :: string where
  "COLOR_HOVER_BG = ''var(--resize-handler-hover-color , #baba69)''"

definition COLOR_TRANSPARENT :: string where
  "COLOR_TRANSPARENT = ''transparent''"

text \<open>The object after the constructor ran, placed between the given siblings.\<close>

definition constructed ::
  "(string \<times> string) list \<Rightarrow> element option \<Rightarrow> element option \<Rightarrow> real \<Rightarrow> page" where
  "constructed attrs prev nxt vw =
     \<lparr> isDragging = False, initialX = 0, currentSiblingWidth = 0,
       minWidth = 150, maxWidthPercent = 30, defaultWidth = 150,
       resize = None, isCollapsable = False, isPanelCollapsed = False,
       attributes = attrs, backgroundColor = [], rendered = False, listeners = [],
       previousElementSibling = prev, nextElementSibling = nxt,
       bodyCursor = [], documentListeners = [], windowListeners = [],
       innerWidth = vw, console = [], closures = [], timers = [] \<rparr>"

subsection \<open>Double-precision arithmetic\<close>

text \<open>
  The double nearest to a real, ties to the even significand: the value is scaled into
  \<open>[1, 2)\<close>, its 52 fraction bits are rounded, and the scale is put back. Overflow and
  subnormal numbers (magnitudes outside \<open>2 ^ -1022\<close> to \<open>2 ^ 1024\<close>) are not modelled;
  the scaling stops after 1100 steps.
\<close>

fun scaleToUnit :: "nat \<Rightarrow> real \<Rightarrow> int \<Rightarrow> real \<times> int" where
  "scaleToUnit 0 x e = (x, e)"
| "scaleToUnit (Suc n) x e =
     (if 2 \<le> x then scaleToUnit n (x / 2) (e + 1)
      else if x < 1 then scaleToUnit n (x * 2) (e - 1)
      else (x, e))"

definition roundHalfEven :: "real \<Rightarrow> int" where
  "roundHalfEven m = (let r = \<lfloor>m\<rfloor>; f = m - of_int r in
     if f < 1 / 2 then r else if 1 / 2 < f then r + 1 else if even r then r else r + 1)"

definition roundToDouble :: "real \<Rightarrow> real" where
  "roundToDouble x =
     (if x = 0 then 0
      else let (m, e) = scaleToUnit 1100 \<bar>x\<bar> 0;
               r = roundHalfEven (m * 2 ^ 52);
               u = (if 52 \<le> e then 2 ^ nat (e - 52) else 1 / 2 ^ nat (52 - e))
           in sgn x * of_int r * u)"

subsection \<open>DOM primitives\<close>

definition hasAttribute :: "page \<Rightarrow> string \<Rightarrow> bool" where
  "hasAttribute st n = (map_of (attributes st) n \<noteq> None)"

definition getAttribute :: "page \<Rightarrow> string \<Rightarrow> string option" where
  "getAttribute st n = map_of (attributes st) n"

text \<open>
  \<open>addEventListener\<close> ignores a listener that is already registered for the type;
  \<open>removeEventListener\<close> removes the listener that is the same object, if any.
\<close>

definition addEventListener ::
  "string \<Rightarrow> callback \<Rightarrow> (string \<times> callback) list \<Rightarrow> (string \<times> callback) list" where
  "addEventListener ty f ls = (if (ty, f) \<in> set ls then ls else ls @ [(ty, f)])"

definition removeEventListener ::
  "string \<Rightarrow> callback \<Rightarrow> (string \<times> callback) list \<Rightarrow> (string \<times> callback) list" where
  "removeEventListener ty f ls = removeAll (ty, f) ls"

definition deref :: "sibling \<Rightarrow> page \<Rightarrow> element option" where
  "deref r st = (case r of PreviousElementSibling \<Rightarrow> previousElementSibling st
                         | NextElementSibling \<Rightarrow> nextElementSibling st)"

definition assign :: "sibling \<Rightarrow> element \<Rightarrow> page \<Rightarrow> page" where
  "assign r el st = (case r of
       PreviousElementSibling \<Rightarrow> st\<lparr>previousElementSibling := Some el\<rparr>
     | NextElementSibling \<Rightarrow> st\<lparr>nextElementSibling := Some el\<rparr>)"

text \<open>
  Property access through a variable of type \<open>HTMLElement | null\<close>: on \<open>null\<close> it
  throws a \<open>TypeError\<close>.
\<close>

definition setDisplay :: "sibling option \<Rightarrow> string \<Rightarrow> page \<Rightarrow> page result" where
  "setDisplay t v st = (case t of None \<Rightarrow> Inl TypeError
     | Some r \<Rightarrow> (case deref r st of None \<Rightarrow> Inl TypeError
         | Some el \<Rightarrow> Inr (assign r (el\<lparr>display := v\<rparr>) st)))"

definition setFlexBasis :: "sibling option \<Rightarrow> real \<Rightarrow> page \<Rightarrow> page result" where
  "setFlexBasis t w st = (case t of None \<Rightarrow> Inl TypeError
     | Some r \<Rightarrow> (case deref r st of None \<Rightarrow> Inl TypeError
         | Some el \<Rightarrow> Inr (assign r (el\<lparr>flexBasis := Some w\<rparr>) st)))"

definition getBoundingClientRectWidth :: "sibling option \<Rightarrow> page \<Rightarrow> real result" where
  "getBoundingClientRectWidth t st = (case t of None \<Rightarrow> Inl TypeError
     | Some r \<Rightarrow> (case deref r st of None \<Rightarrow> Inl TypeError
         | Some el \<Rightarrow> Inr (rectWidth el)))"

subsection \<open>parseInt and the fallback operator\<close>

text \<open>
  \<open>parseInt(s)\<close> with no radix: leading white space is skipped, then an optional sign,
  then an optional \<open>0x\<close>/\<open>0X\<close> (radix 16, otherwise 10), then the longest run of
  digits of the radix; no digit gives \<open>NaN\<close> (\<open>None\<close>). Strings are ASCII here.
\<close>

definition isWhiteSpace :: "char \<Rightarrow> bool" where
  "isWhiteSpace c = (let n = (of_char c :: nat) in (9 \<le> n \<and> n \<le> 13) \<or> n = 32)"

definition digitValue :: "char \<Rightarrow> nat option" where
  "digitValue c = (let n = (of_char c :: nat) in
     if 48 \<le> n \<and> n \<le> 57 then Some (n - 48)
     else if 97 \<le> n \<and> n \<le> 122 then Some (n - 87)
     else if 65 \<le> n \<and> n \<le> 90 then Some (n - 55)
     else None)"

fun digitsOf :: "nat \<Rightarrow> string \<Rightarrow> nat list" where
  "digitsOf radix [] = []"
| "digitsOf radix (c # cs) = (case digitValue c of
       None \<Rightarrow> []
     | Some d \<Rightarrow> if d < radix then d # digitsOf radix cs else [])"

definition parseInt :: "string \<Rightarrow> int option" where
  "parseInt s =
     (let s1 = dropWhile isWhiteSpace s;
          sgn = (case s1 of c # r \<Rightarrow> if c = CHR ''-'' then (-1::int) else 1 | [] \<Rightarrow> 1);
          s2 = (case s1 of c # r \<Rightarrow> if c = CHR ''-'' \<or> c = CHR ''+'' then r else s1 | [] \<Rightarrow> s1);
          hex = (case s2 of c # d # r \<Rightarrow> c = CHR ''0'' \<and> (d = CHR ''x'' \<or> d = CHR ''X'') | _ \<Rightarrow> False);
          radix = (if hex then 16 else 10);
          s3 = (if hex then drop 2 s2 else s2);
          ds = digitsOf radix s3
      in if ds = [] then None
         else Some (sgn * int (foldl (\<lambda>acc d. acc * radix + d) 0 ds)))"

text \<open>
  \<open>parseInt(..) || d\<close>: the left operand when it is truthy, else \<open>d\<close>. The falsy
  numbers are \<open>NaN\<close> and zero.
\<close>

definition orDefault :: "int option \<Rightarrow> real \<Rightarrow> real" where
  "orDefault v d = (case v of None \<Rightarrow> d | Some n \<Rightarrow> if n = 0 then d else of_int n)"

section \<open>The component\<close>

subsection \<open>Configuration and target resolution\<close>

definition initializeFromAttributes :: "page \<Rightarrow> page" where
  "initializeFromAttributes st =
     (let st1 = (if hasAttribute st ''min-width''
                 then st\<lparr>minWidth :=
                        orDefault (parseInt (case getAttribute st ''min-width'' of
                                               Some v \<Rightarrow> v | None \<Rightarrow> [])) 150\<rparr>
                 else st);
          st2 = (if hasAttribute st1 ''max-width-percent''
                 then st1\<lparr>maxWidthPercent :=
                        orDefault (parseInt (case getAttribute st1 ''max-width-percent'' of
                                               Some v \<Rightarrow> v | None \<Rightarrow> [])) 30\<rparr>
                 else st1);
          st3 = (if hasAttribute st2 ''initial-width''
                 then st2\<lparr>defaultWidth :=
                        orDefault (parseInt (case getAttribute st2 ''initial-width'' of
                                               Some v \<Rightarrow> v | None \<Rightarrow> [])) (minWidth st2)\<rparr>
                 else st2);
          resizeAttr = getAttribute st3 ''resize'';
          st4 = (if resizeAttr = Some ''left'' then st3\<lparr>resize := Some ResizeLeft\<rparr>
                 else if resizeAttr = Some ''right'' then st3\<lparr>resize := Some ResizeRight\<rparr>
                 else if resizeAttr \<noteq> None
                 then st3\<lparr>console := console st3 @
                        [ConsoleError ''Invalid value for resize attribute. Valid values are left or right.'']\<rparr>
                 else st3)
      in st4\<lparr>isCollapsable := hasAttribute st4 ''collapsable''\<rparr>)"

definition getTargetElement :: "page \<Rightarrow> sibling option" where
  "getTargetElement st =
     (if resize st = Some ResizeLeft \<and> previousElementSibling st \<noteq> None
      then Some PreviousElementSibling
      else if resize st = Some ResizeRight \<and> nextElementSibling st \<noteq> None
      then Some NextElementSibling
      else None)"

definition applyDefaultWidth :: "page \<Rightarrow> page result" where
  "applyDefaultWidth st =
     (let targetElement = getTargetElement st in
      if targetElement \<noteq> None then setFlexBasis targetElement (defaultWidth st) st
      else Inr st)"

definition render :: "page \<Rightarrow> page" where
  "render st = st\<lparr>rendered := True\<rparr>"

definition setupEventListeners :: "page \<Rightarrow> page" where
  "setupEventListeners st =
     st\<lparr>listeners :=
          addEventListener ''mousedown'' HandleMouseDownFn
            (addEventListener ''mouseleave'' HandleMouseLeaveFn
              (addEventListener ''mouseenter'' HandleMouseEnterFn (listeners st)))\<rparr>"

definition removeEventListeners :: "page \<Rightarrow> page" where
  "removeEventListeners st =
     st\<lparr>listeners :=
          removeEventListener ''mousedown'' HandleMouseDownFn
            (removeEventListener ''mouseleave'' HandleMouseLeaveFn
              (removeEventListener ''mouseenter'' HandleMouseEnterFn (listeners st))),
        documentListeners :=
          removeEventListener ''mouseup'' HandleMouseUpFn
            (removeEventListener ''mousemove'' HandleMouseMoveFn (documentListeners st))\<rparr>"

subsection \<open>Hover and drag handlers\<close>

definition handleMouseEnter :: "page \<Rightarrow> page" where
  "handleMouseEnter st = st\<lparr>backgroundColor := COLOR_HOVER_BG, bodyCursor := ''col-resize''\<rparr>"

definition handleMouseLeave :: "page \<Rightarrow> page" where
  "handleMouseLeave st =
     (if \<not> isDragging st
      then st\<lparr>backgroundColor := COLOR_TRANSPARENT, bodyCursor := ''default''\<rparr>
      else st)"

text \<open>The argument is \<open>e.clientX\<close>; \<open>e.preventDefault()\<close> has no effect on the state.\<close>

definition handleMouseDown :: "real \<Rightarrow> page \<Rightarrow> page result" where
  "handleMouseDown clientX st =
     (let targetElement = getTargetElement st in
      if targetElement = None then Inr st
      else andThen (getBoundingClientRectWidth targetElement st) (\<lambda>w.
        Inr (st\<lparr>backgroundColor := COLOR_HOVER_BG, bodyCursor := ''col-resize'',
                 isDragging := True, initialX := clientX, currentSiblingWidth := w,
                 documentListeners :=
                   addEventListener ''mouseup'' HandleMouseUpFn
                     (addEventListener ''mousemove'' HandleMouseMoveFn
                        (documentListeners st))\<rparr>)))"

text \<open>The local \<open>newWidth\<close> of \<open>handleMouseMove\<close>.\<close>

definition newWidth :: "real \<Rightarrow> page \<Rightarrow> real" where
  "newWidth clientX st =
     (if resize st = Some ResizeLeft
      then currentSiblingWidth st + (clientX - initialX st)
      else currentSiblingWidth st - (clientX - initialX st))"

text \<open>The two consecutive \<open>if\<close> statements under \<open>if (this.isCollapsable)\<close>.\<close>

definition collapsePolicy :: "sibling option \<Rightarrow> real \<Rightarrow> page \<Rightarrow> page result" where
  "collapsePolicy targetElement nw st =
     (if isCollapsable st
      then andThen
             (if nw \<le> minWidth st
              then andThen (setDisplay targetElement ''none'' st)
                     (\<lambda>s. Inr (s\<lparr>isPanelCollapsed := True\<rparr>))
              else Inr st)
             (\<lambda>s1. if isPanelCollapsed s1 \<and> nw > 50
                   then andThen (setDisplay targetElement ''block'' s1)
                          (\<lambda>s. Inr (s\<lparr>isPanelCollapsed := False\<rparr>))
                   else Inr s1)
      else Inr st)"

text \<open>
  The local \<open>maxWidth\<close> of \<open>handleMouseMove\<close> and \<open>adjustPanelWidth\<close>:
  \<open>window.innerWidth * (this.maxWidthPercent / 100)\<close>, each operation rounded to a double.
\<close>

definition maxWidth :: "page \<Rightarrow> real" where
  "maxWidth st = roundToDouble (innerWidth st * roundToDouble (maxWidthPercent st / 100))"

definition handleMouseMove :: "real \<Rightarrow> page \<Rightarrow> page result" where
  "handleMouseMove clientX st =
     (if \<not> isDragging st then Inr st
      else let targetElement = getTargetElement st in
        if targetElement = None then Inr st
        else andThen (collapsePolicy targetElement (newWidth clientX st) st) (\<lambda>s1.
          let clampedWidth = max (minWidth s1) (min (newWidth clientX st) (maxWidth s1))
          in setFlexBasis targetElement clampedWidth s1))"

definition handleMouseUp :: "page \<Rightarrow> page" where
  "handleMouseUp st =
     st\<lparr>backgroundColor := COLOR_TRANSPARENT, isDragging := False, bodyCursor := ''default'',
        documentListeners :=
          removeEventListener ''mouseup'' HandleMouseUpFn
            (removeEventListener ''mousemove'' HandleMouseMoveFn (documentListeners st))\<rparr>"

subsection \<open>Viewport reactor\<close>

definition adjustPanelWidth :: "page \<Rightarrow> page result" where
  "adjustPanelWidth st =
     (let targetElement = getTargetElement st in
      if targetElement \<noteq> None
      then andThen (getBoundingClientRectWidth targetElement st) (\<lambda>currentWidth.
             if currentWidth > maxWidth st \<and> maxWidth st > minWidth st
             then setFlexBasis targetElement (maxWidth st) st
             else Inr st)
      else Inr st)"

subsection \<open>The throttle gate\<close>

text \<open>
  \<open>throttle(func, limit)\<close> allocates the variable \<open>inThrottle\<close> (undefined, hence
  falsy) and returns a new function object. \<open>throttled\<close> is the body of that function
  for the closure \<open>k\<close>, called at time \<open>now\<close> (milliseconds); \<open>func\<close> and
  \<open>limit\<close>, which the closure captured, are passed along. \<open>runTimers\<close> runs the
  \<open>setTimeout\<close> callbacks that are due: each resets its \<open>inThrottle\<close>.
\<close>

definition throttle :: "page \<Rightarrow> callback \<times> page" where
  "throttle st = (ThrottledFn (length (closures st)), st\<lparr>closures := closures st @ [False]\<rparr>)"

definition inThrottle :: "nat \<Rightarrow> page \<Rightarrow> bool" where
  "inThrottle k st = (k < length (closures st) \<and> closures st ! k)"

definition throttled ::
  "(page \<Rightarrow> page result) \<Rightarrow> nat \<Rightarrow> nat \<Rightarrow> nat \<Rightarrow> page \<Rightarrow> page result" where
  "throttled func limit k now st =
     (if \<not> inThrottle k st
      then andThen (func st) (\<lambda>s.
             Inr (s\<lparr>closures := (closures s)[k := True],
                     timers := timers s @ [(now + limit, k)]\<rparr>))
      else Inr st)"

definition runTimers :: "nat \<Rightarrow> page \<Rightarrow> page" where
  "runTimers now st =
     st\<lparr>closures := fold (\<lambda>t cs. cs[snd t := False])
                       (filter (\<lambda>t. fst t \<le> now) (timers st)) (closures st),
        timers := filter (\<lambda>t. \<not> fst t \<le> now) (timers st)\<rparr>"

subsection \<open>Mounting and unmounting\<close>

definition connectedCallback :: "page \<Rightarrow> page result" where
  "connectedCallback st =
     andThen (applyDefaultWidth (setupEventListeners (render (initializeFromAttributes st))))
       (\<lambda>s1. andThen (adjustPanelWidth s1)
          (\<lambda>s2. let (f, s3) = throttle s2
                in Inr (s3\<lparr>windowListeners :=
                            addEventListener ''resize'' f (windowListeners s3)\<rparr>)))"

definition disconnectedCallback :: "page \<Rightarrow> page" where
  "disconnectedCallback st =
     (let (f, s1) = throttle (removeEventListeners st)
      in s1\<lparr>windowListeners := removeEventListener ''resize'' f (windowListeners s1)\<rparr>)"

definition observedAttributes :: "string list" where
  "observedAttributes = []"

definition attributeChangedCallback ::
  "string \<Rightarrow> string option \<Rightarrow> string option \<Rightarrow> page \<Rightarrow> page result" where
  "attributeChangedCallback name oldValue newValue st = Inr st"

section \<open>handlers/resizeHandlers.ts\<close>

text \<open>
  The fields \<open>MIN_WIDTH\<close>, \<open>MAX_WIDTH_PERCENT\<close> and \<open>DEFAULT_WIDTH\<close> of this version
  are the fields \<open>minWidth\<close>, \<open>maxWidthPercent\<close> and \<open>defaultWidth\<close> of the record;
  it has no field \<open>resize\<close>. \<open>render\<close>, the listener set-up, the hover handlers,
  \<open>handleMouseUp\<close> and \<open>disconnectedCallback\<close> are the same text as in the component.
\<close>

text \<open>
  The local \<open>targetElement\<close> of \<open>adjustPanelWidth\<close> after its \<open>if\<close> chain on the
  \<open>resize\<close> attribute; \<open>handleMouseMove\<close> runs the same chain.
\<close>

definition targetElement_rh :: "page \<Rightarrow> sibling option" where
  "targetElement_rh st =
     (let resizeAttr = getAttribute st ''resize'' in
      if resizeAttr = Some ''left'' \<and> previousElementSibling st \<noteq> None
      then Some PreviousElementSibling
      else if resizeAttr = Some ''right'' \<and> nextElementSibling st \<noteq> None
      then Some NextElementSibling
      else None)"

definition adjustPanelWidth_rh :: "page \<Rightarrow> page result" where
  "adjustPanelWidth_rh st =
     (let targetElement = targetElement_rh st
      in if targetElement \<noteq> None
         then andThen (getBoundingClientRectWidth targetElement st) (\<lambda>currentWidth.
                if currentWidth > maxWidth st \<and> maxWidth st > minWidth st
                then setFlexBasis targetElement (maxWidth st) st
                else Inr st)
         else Inr st)"

definition connectedCallback_rh :: "page \<Rightarrow> page result" where
  "connectedCallback_rh st =
     andThen (adjustPanelWidth_rh (setupEventListeners (render st))) (\<lambda>s1.
       let resizeAttr = getAttribute s1 ''resize'' in
       andThen
         (if resizeAttr = Some ''left'' \<and> previousElementSibling s1 \<noteq> None
          then andThen (setFlexBasis (Some PreviousElementSibling) (defaultWidth s1) s1)
                 (\<lambda>s. Inr (s\<lparr>console := console s @
                     [ConsoleLog (case previousElementSibling s of
                                    None \<Rightarrow> None | Some el \<Rightarrow> flexBasis el)]\<rparr>))
          else if resizeAttr = Some ''right'' \<and> nextElementSibling s1 \<noteq> None
          then setFlexBasis (Some NextElementSibling) (defaultWidth s1) s1
          else Inr s1)
         (\<lambda>s2. let (f, s3) = throttle s2
               in Inr (s3\<lparr>windowListeners :=
                           addEventListener ''resize'' f (windowListeners s3)\<rparr>)))"

definition handleMouseDown_rh :: "real \<Rightarrow> page \<Rightarrow> page result" where
  "handleMouseDown_rh clientX st =
     (let resizeAttr = getAttribute st ''resize'';
          s1 = st\<lparr>backgroundColor := COLOR_HOVER_BG, bodyCursor := ''col-resize'',
                  isDragging := True, initialX := clientX\<rparr>
      in andThen
           (if resizeAttr = Some ''left'' \<and> previousElementSibling s1 \<noteq> None
            then andThen (getBoundingClientRectWidth (Some PreviousElementSibling) s1)
                   (\<lambda>w. Inr (s1\<lparr>currentSiblingWidth := w\<rparr>))
            else if resizeAttr = Some ''right'' \<and> nextElementSibling s1 \<noteq> None
            then andThen (getBoundingClientRectWidth (Some NextElementSibling) s1)
                   (\<lambda>w. Inr (s1\<lparr>currentSiblingWidth := w\<rparr>))
            else Inr s1)
           (\<lambda>s2. Inr (s2\<lparr>documentListeners :=
                            addEventListener ''mouseup'' HandleMouseUpFn
                              (addEventListener ''mousemove'' HandleMouseMoveFn
                                 (documentListeners s2))\<rparr>)))"

text \<open>
  The part of \<open>handleMouseMove\<close> after the branch that resolved \<open>targetElement\<close> and
  \<open>newWidth\<close>: the collapse policy, then \<open>if (!targetElement) return\<close>, then the clamp.
\<close>

definition applyWidth_rh :: "sibling option \<Rightarrow> real \<Rightarrow> page \<Rightarrow> page result" where
  "applyWidth_rh targetElement nw st =
     andThen (collapsePolicy targetElement nw st) (\<lambda>s1.
       if targetElement = None then Inr s1
       else let clampedWidth = max (minWidth s1) (min nw (maxWidth s1))
            in setFlexBasis targetElement clampedWidth s1)"

definition handleMouseMove_rh :: "real \<Rightarrow> page \<Rightarrow> page result" where
  "handleMouseMove_rh clientX st =
     (if \<not> isDragging st then Inr st
      else let resizeAttr = getAttribute st ''resize'' in
        if resizeAttr = Some ''left'' \<and> previousElementSibling st \<noteq> None
        then applyWidth_rh (Some PreviousElementSibling)
               (currentSiblingWidth st + (clientX - initialX st)) st
        else if resizeAttr = Some ''right'' \<and> nextElementSibling st \<noteq> None
        then applyWidth_rh (Some NextElementSibling)
               (currentSiblingWidth st - (clientX - initialX st)) st
        else Inr (st\<lparr>console := console st @
               [ConsoleError ''invalid attribute value; valid attribute value for resize: left | right'']\<rparr>))"

definition observedAttributes_rh :: "string list" where
  "observedAttributes_rh =
     [''min-width'', ''max-width-percent'', ''default-width'', ''resize'', ''collapsable'']"

definition toLowerCase :: "string \<Rightarrow> string" where
  "toLowerCase s = map (\<lambda>c. let n = (of_char c :: nat) in
                          if 65 \<le> n \<and> n \<le> 90 then char_of (n + 32) else c) s"

text \<open>
  \<open>newValue\<close> is \<open>null\<close> (\<open>None\<close>) when the attribute was removed. \<open>parseInt(null)\<close>
  parses the string \<open>null\<close>; \<open>null.toLowerCase()\<close> throws.
\<close>

definition attributeChangedCallback_rh ::
  "string \<Rightarrow> string option \<Rightarrow> string option \<Rightarrow> page \<Rightarrow> page result" where
  "attributeChangedCallback_rh name oldValue newValue st =
     (let str = (case newValue of None \<Rightarrow> ''null'' | Some v \<Rightarrow> v) in
      if name = ''min-width'' then Inr (st\<lparr>minWidth := orDefault (parseInt str) 150\<rparr>)
      else if name = ''max-width-percent''
      then Inr (st\<lparr>maxWidthPercent := orDefault (parseInt str) 30\<rparr>)
      else if name = ''default-width''
      then Inr (st\<lparr>defaultWidth := orDefault (parseInt str) (minWidth st)\<rparr>)
      else if name = ''collapsable''
      then (case newValue of
              None \<Rightarrow> Inl TypeError
            | Some v \<Rightarrow> Inr (st\<lparr>isCollapsable :=
                               (if toLowerCase v = ''false'' then False else True)\<rparr>))
      else Inr st)"

section \<open>Event delivery\<close>

datatype version = Component | ResizeHandlers

datatype event =
  Connected | Disconnected | AttributeChanged string "string option"
  | MouseEnter | MouseLeave | MouseDown real | MouseMove real | MouseUp | Resize

text \<open>Calling a registered function object with a mouse event at \<open>clientX\<close>.\<close>

definition invoke :: "version \<Rightarrow> callback \<Rightarrow> real \<Rightarrow> nat \<Rightarrow> page \<Rightarrow> page result" where
  "invoke v f clientX now st = (case f of
       HandleMouseEnterFn \<Rightarrow> Inr (handleMouseEnter st)
     | HandleMouseLeaveFn \<Rightarrow> Inr (handleMouseLeave st)
     | HandleMouseDownFn \<Rightarrow> (case v of Component \<Rightarrow> handleMouseDown clientX st
                                      | ResizeHandlers \<Rightarrow> handleMouseDown_rh clientX st)
     | HandleMouseMoveFn \<Rightarrow> (case v of Component \<Rightarrow> handleMouseMove clientX st
                                      | ResizeHandlers \<Rightarrow> handleMouseMove_rh clientX st)
     | HandleMouseUpFn \<Rightarrow> Inr (handleMouseUp st)
     | ThrottledFn k \<Rightarrow> (case v of Component \<Rightarrow> throttled adjustPanelWidth 100 k now st
                                  | ResizeHandlers \<Rightarrow> throttled adjustPanelWidth_rh 100 k now st))"

text \<open>The listeners of one event target that are registered for the type, in order.\<close>

fun fire ::
  "version \<Rightarrow> (string \<times> callback) list \<Rightarrow> string \<Rightarrow> real \<Rightarrow> nat \<Rightarrow> page \<Rightarrow> page result" where
  "fire v [] ty clientX now st = Inr st"
| "fire v (l # ls) ty clientX now st =
     (if fst l = ty then andThen (invoke v (snd l) clientX now st) (fire v ls ty clientX now)
      else fire v ls ty clientX now st)"

definition setAttribute :: "string \<Rightarrow> string option \<Rightarrow> page \<Rightarrow> page" where
  "setAttribute name newValue st =
     st\<lparr>attributes := (case newValue of None \<Rightarrow> [] | Some v \<Rightarrow> [(name, v)]) @
                        filter (\<lambda>a. fst a \<noteq> name) (attributes st)\<rparr>"

definition deliver :: "version \<Rightarrow> event \<Rightarrow> nat \<Rightarrow> page \<Rightarrow> page result" where
  "deliver v ev now st = (case ev of
       Connected \<Rightarrow> (case v of Component \<Rightarrow> connectedCallback st
                             | ResizeHandlers \<Rightarrow> connectedCallback_rh st)
     | Disconnected \<Rightarrow> Inr (disconnectedCallback st)
     | AttributeChanged name newValue \<Rightarrow>
         (let oldValue = getAttribute st name; s1 = setAttribute name newValue st in
          case v of
            Component \<Rightarrow> if name \<in> set observedAttributes
                         then attributeChangedCallback name oldValue newValue s1 else Inr s1
          | ResizeHandlers \<Rightarrow> if name \<in> set observedAttributes_rh
                         then attributeChangedCallback_rh name oldValue newValue s1 else Inr s1)
     | MouseEnter \<Rightarrow> fire v (listeners st) ''mouseenter'' 0 now st
     | MouseLeave \<Rightarrow> fire v (listeners st) ''mouseleave'' 0 now st
     | MouseDown clientX \<Rightarrow> fire v (listeners st) ''mousedown'' clientX now st
     | MouseMove clientX \<Rightarrow> fire v (documentListeners st) ''mousemove'' clientX now st
     | MouseUp \<Rightarrow> fire v (documentListeners st) ''mouseup'' 0 now st
     | Resize \<Rightarrow> fire v (windowListeners st) ''resize'' 0 now st)"

text \<open>An event at time \<open>now\<close>: the timers that are due run first.\<close>

definition step :: "version \<Rightarrow> event \<Rightarrow> nat \<Rightarrow> page \<Rightarrow> page result" where
  "step v ev now st = deliver v ev now (runTimers now st)"

fun run :: "version \<Rightarrow> (event \<times> nat) list \<Rightarrow> page \<Rightarrow> page result" where
  "run v [] st = Inr st"
| "run v (e # es) st = andThen (step v (fst e) (snd e) st) (run v es)"

section \<open>Observations and example inputs\<close>

text \<open>
  The net effect of the two collapse tests on a move with candidate width \<open>nw\<close>: the
  panel ends re-shown, or ends hidden.
\<close>

definition reshown :: "real \<Rightarrow> page \<Rightarrow> bool" where
  "reshown nw st = (isCollapsable st \<and> nw > 50 \<and> (nw \<le> minWidth st \<or> isPanelCollapsed st))"

definition hidden :: "real \<Rightarrow> page \<Rightarrow> bool" where
  "hidden nw st = (isCollapsable st \<and> nw \<le> minWidth st \<and> \<not> nw > 50)"

text \<open>What a result holds for one sibling, and some concrete pages.\<close>

definition examplePanel :: element where
  "examplePanel = \<lparr>flexBasis = None, display = [], rectWidth = 300\<rparr>"

definition observe :: "(page \<Rightarrow> 'a) \<Rightarrow> page result \<Rightarrow> 'a option" where
  "observe f r = (case r of Inl e \<Rightarrow> None | Inr st \<Rightarrow> Some (f st))"

definition flexBasisOf :: "sibling \<Rightarrow> page result \<Rightarrow> real option" where
  "flexBasisOf t r = (case r of Inl e \<Rightarrow> None
     | Inr st \<Rightarrow> (case deref t st of None \<Rightarrow> None | Some el \<Rightarrow> flexBasis el))"

definition displayOf :: "sibling \<Rightarrow> page result \<Rightarrow> string option" where
  "displayOf t r = (case r of Inl e \<Rightarrow> None
     | Inr st \<Rightarrow> (case deref t st of None \<Rightarrow> None | Some el \<Rightarrow> Some (display el)))"

text \<open>
  A handle in a drag that started at pointer position 500 with a panel 300 wide, for
  either direction, in a viewport of width \<open>vw\<close>.
\<close>

definition draggingLeft :: "real \<Rightarrow> page" where
  "draggingLeft vw = (constructed [(''resize'', ''left'')] (Some examplePanel) None vw)
      \<lparr>resize := Some ResizeLeft, isDragging := True, initialX := 500, currentSiblingWidth := 300\<rparr>"

definition draggingRight :: "real \<Rightarrow> page" where
  "draggingRight vw = (constructed [(''resize'', ''right'')] None (Some examplePanel) vw)
      \<lparr>resize := Some ResizeRight, isDragging := True, initialX := 500, currentSiblingWidth := 300\<rparr>"

text \<open>
  The local \<open>newWidth\<close> of \<open>handleMouseMove\<close> in \<open>handlers/resizeHandlers.ts\<close>, by
  the branch that resolved the target: the first branch takes the previous sibling and
  adds the pointer delta, the second takes the next sibling and subtracts it.
\<close>

definition newWidth_rh :: "sibling \<Rightarrow> real \<Rightarrow> page \<Rightarrow> real" where
  "newWidth_rh t clientX st =
     (case t of PreviousElementSibling \<Rightarrow> currentSiblingWidth st + (clientX - initialX st)
              | NextElementSibling \<Rightarrow> currentSiblingWidth st - (clientX - initialX st))"

text \<open>
  A handle with \<open>min-width\<close> 112 and \<open>max-width-percent\<close> 28 in a viewport 400 wide,
  where the rounded product exceeds 112.
\<close>

definition narrowLeft :: page where
  "narrowLeft = (constructed [(''resize'', ''left''), (''min-width'', ''112''),
                              (''max-width-percent'', ''28'')] (Some examplePanel) None 400)
      \<lparr>resize := Some ResizeLeft, minWidth := 112, maxWidthPercent := 28\<rparr>"

text \<open>A collapsible handle in a drag, its panel already collapsed; and one before mounting.\<close>

definition collapsedLeft :: "real \<Rightarrow> page" where
  "collapsedLeft vw =
     (constructed [(''resize'', ''left''), (''collapsable'', ''true'')]
        (Some (examplePanel\<lparr>display := ''none''\<rparr>)) None vw)
      \<lparr>resize := Some ResizeLeft, isCollapsable := True, isPanelCollapsed := True,
       isDragging := True, initialX := 500, currentSiblingWidth := 300\<rparr>"

definition collapsableLeft :: "real \<Rightarrow> page" where
  "collapsableLeft vw =
     constructed [(''resize'', ''left''), (''collapsable'', [])] (Some examplePanel) None vw"

text \<open>
  The listener tables while no drag session exists: the element holds at most its three
  own listeners, the document none, and the window only throttled resize listeners.
\<close>

fun isMouseDown :: "event \<Rightarrow> bool" where
  "isMouseDown (MouseDown clientX) = True"
| "isMouseDown ev = False"

definition wiring ::
  "page \<Rightarrow> (string \<times> callback) list \<times> (string \<times> callback) list \<times> (string \<times> callback) list" where
  "wiring st = (listeners st, documentListeners st, windowListeners st)"

definition ownListener :: "string \<times> callback \<Rightarrow> bool" where
  "ownListener l = (l = (''mouseenter'', HandleMouseEnterFn)
     \<or> l = (''mouseleave'', HandleMouseLeaveFn) \<or> l = (''mousedown'', HandleMouseDownFn))"

definition resizeListener :: "string \<times> callback \<Rightarrow> bool" where
  "resizeListener l = (fst l = ''resize'' \<and> (case snd l of ThrottledFn k \<Rightarrow> True | _ \<Rightarrow> False))"

definition noSession :: "page \<Rightarrow> bool" where
  "noSession st = (list_all ownListener (listeners st) \<and> documentListeners st = []
     \<and> list_all resizeListener (windowListeners st))"

text \<open>A run of events with no press on the handle.\<close>

definition idleTrace :: "(event \<times> nat) list" where
  "idleTrace = [(Connected, 0), (MouseEnter, 10), (MouseMove 480, 20), (Resize, 30),
                (MouseLeave, 40), (MouseUp, 50), (Disconnected, 60), (Connected, 70),
                (MouseEnter, 80)]"

text \<open>The state of the throttle gates, and a page after mounting.\<close>

definition gate :: "page \<Rightarrow> bool list \<times> (nat \<times> nat) list \<times> (string \<times> callback) list" where
  "gate st = (closures st, timers st, windowListeners st)"


section \<open>Basic facts\<close>

lemma parseInt_examples:
  "parseInt ''200'' = Some 200" "parseInt ''abc'' = None" "parseInt ''0'' = Some 0"
  "parseInt '' -12px'' = Some (-12)" "parseInt ''0x1f'' = Some 31" "parseInt [] = None"
  "parseInt ''null'' = None"
  by (simp_all add: parseInt_def isWhiteSpace_def digitValue_def)

lemma roundToDouble_examples:
  "roundToDouble (400 * roundToDouble (28 / 100)) = 112 + 1 / 2 ^ 46"
  "roundToDouble (400 * roundToDouble (30 / 100)) = 120"
  "roundToDouble (600 * roundToDouble (30 / 100)) = 180"
  "roundToDouble (2000 * roundToDouble (30 / 100)) = 600"
  by code_simp+

text \<open>
  Rounding a product takes the evaluator some seconds. For the viewports and percentages
  of the examples below the values are tabulated, so that a run of events is evaluated
  quickly; for every other input the equation is the definition.
\<close>

lemma maxWidth_table [code]:
  "maxWidth st =
     (if maxWidthPercent st = 30 \<and> innerWidth st = 2000 then 600
      else if maxWidthPercent st = 30 \<and> innerWidth st = 600 then 180
      else if maxWidthPercent st = 30 \<and> innerWidth st = 400 then 120
      else if maxWidthPercent st = 28 \<and> innerWidth st = 400 then 112 + 1 / 2 ^ 46
      else roundToDouble (innerWidth st * roundToDouble (maxWidthPercent st / 100)))"
  using roundToDouble_examples by (auto simp: maxWidth_def)

subsection \<open>Writing a sibling\<close>

lemma deref_assign [simp]: "deref t (assign t el st) = Some el"
  by (cases t) (simp_all add: deref_def assign_def)

lemma assign_fields [simp]:
  "minWidth (assign t el st) = minWidth st"
  "maxWidth (assign t el st) = maxWidth st"
  "isCollapsable (assign t el st) = isCollapsable st"
  "isPanelCollapsed (assign t el st) = isPanelCollapsed st"
  "isDragging (assign t el st) = isDragging st"
  "documentListeners (assign t el st) = documentListeners st"
  "listeners (assign t el st) = listeners st"
  "windowListeners (assign t el st) = windowListeners st"
  by (cases t; simp add: assign_def maxWidth_def)+

lemma assign_assign [simp]: "assign t el (assign t el' st) = assign t el st"
  by (cases t) (simp_all add: assign_def)

lemma assign_collapsed [simp]:
  "assign t el (st\<lparr>isPanelCollapsed := b\<rparr>) = (assign t el st)\<lparr>isPanelCollapsed := b\<rparr>"
  by (cases t) (simp_all add: assign_def)

lemma deref_collapsed [simp]: "deref t (st\<lparr>isPanelCollapsed := b\<rparr>) = deref t st"
  by (cases t) (simp_all add: deref_def)

lemma maxWidth_collapsed [simp]: "maxWidth (st\<lparr>isPanelCollapsed := b\<rparr>) = maxWidth st"
  by (simp add: maxWidth_def)

lemma assign_same: "deref t st = Some el \<Longrightarrow> assign t el st = st"
  by (cases t) (simp_all add: deref_def assign_def)

lemma collapsePolicy_Some:
  assumes "deref t st = Some el"
  shows "collapsePolicy (Some t) nw st = Inr
     (if reshown nw st then (assign t (el\<lparr>display := ''block''\<rparr>) st)\<lparr>isPanelCollapsed := False\<rparr>
      else if hidden nw st then (assign t (el\<lparr>display := ''none''\<rparr>) st)\<lparr>isPanelCollapsed := True\<rparr>
      else st)"
  using assms
  by (auto simp: collapsePolicy_def andThen_def setDisplay_def reshown_def hidden_def)

lemma applyWidth_rh_Some:
  assumes "deref t st = Some el"
  shows "applyWidth_rh (Some t) nw st = Inr
     (if reshown nw st
      then (assign t (el\<lparr>display := ''block'', flexBasis := Some (max (minWidth st) (min nw (maxWidth st)))\<rparr>) st)\<lparr>isPanelCollapsed := False\<rparr>
      else if hidden nw st
      then (assign t (el\<lparr>display := ''none'', flexBasis := Some (max (minWidth st) (min nw (maxWidth st)))\<rparr>) st)\<lparr>isPanelCollapsed := True\<rparr>
      else assign t (el\<lparr>flexBasis := Some (max (minWidth st) (min nw (maxWidth st)))\<rparr>) st)"
  using assms
  by (simp add: applyWidth_rh_def collapsePolicy_Some andThen_def setFlexBasis_def)

lemma getTargetElement_deref:
  "getTargetElement st = Some t \<Longrightarrow> \<exists>el. deref t st = Some el"
  by (auto simp: getTargetElement_def deref_def split: if_splits)

lemma targetElement_rh_deref:
  "targetElement_rh st = Some t \<Longrightarrow> \<exists>el. deref t st = Some el"
  by (auto simp: targetElement_rh_def deref_def Let_def split: if_splits)

lemma handleMouseMove_apply:
  "isDragging st \<Longrightarrow> getTargetElement st = Some t \<Longrightarrow>
   handleMouseMove x st = applyWidth_rh (Some t) (newWidth x st) st"
  by (simp add: handleMouseMove_def applyWidth_rh_def Let_def)

lemma handleMouseMove_rh_apply:
  "isDragging st \<Longrightarrow> targetElement_rh st = Some t \<Longrightarrow>
   handleMouseMove_rh x st = applyWidth_rh (Some t)
     (if t = PreviousElementSibling then currentSiblingWidth st + (x - initialX st)
      else currentSiblingWidth st - (x - initialX st)) st"
  by (auto simp: handleMouseMove_rh_def targetElement_rh_def Let_def split: if_splits)


lemma handleMouseMove_rh_apply':
  "isDragging st \<Longrightarrow> targetElement_rh st = Some t \<Longrightarrow>
   handleMouseMove_rh x st = applyWidth_rh (Some t) (newWidth_rh t x st) st"
  by (auto simp: handleMouseMove_rh_def targetElement_rh_def newWidth_rh_def Let_def split: if_splits)


lemma draggingRight_facts:
  "isDragging (draggingRight vw)"
  "getTargetElement (draggingRight vw) = Some NextElementSibling"
  "targetElement_rh (draggingRight vw) = Some NextElementSibling"
  "deref NextElementSibling (draggingRight vw) = Some examplePanel"
  "minWidth (draggingRight vw) = 150"
  "newWidth x (draggingRight vw) = 300 - (x - 500)"
  "newWidth_rh NextElementSibling x (draggingRight vw) = 300 - (x - 500)"
  "\<not> isCollapsable (draggingRight vw)"
  by (simp_all add: draggingRight_def constructed_def getTargetElement_def
      targetElement_rh_def getAttribute_def deref_def maxWidth_def newWidth_def newWidth_rh_def)

lemma example_maxWidth:
  "maxWidth (draggingLeft 2000) = 600" "maxWidth (draggingLeft 600) = 180"
  "maxWidth (draggingRight 2000) = 600" "maxWidth (collapsedLeft 2000) = 600"
  "maxWidth narrowLeft = 112 + 1 / 2 ^ 46"
  by code_simp+


lemma collapsedLeft_facts:
  "isDragging (collapsedLeft vw)"
  "getTargetElement (collapsedLeft vw) = Some PreviousElementSibling"
  "targetElement_rh (collapsedLeft vw) = Some PreviousElementSibling"
  "deref PreviousElementSibling (collapsedLeft vw) = Some (examplePanel\<lparr>display := ''none''\<rparr>)"
  "minWidth (collapsedLeft vw) = 150"
  "newWidth x (collapsedLeft vw) = 300 + (x - 500)"
  "newWidth_rh PreviousElementSibling x (collapsedLeft vw) = 300 + (x - 500)"
  "isCollapsable (collapsedLeft vw)"
  "isPanelCollapsed (collapsedLeft vw)"
  by (simp_all add: collapsedLeft_def constructed_def getTargetElement_def
      targetElement_rh_def getAttribute_def deref_def maxWidth_def newWidth_def newWidth_rh_def)

lemma disconnectedCallback_windowListeners:
  assumes "list_all (\<lambda>l. case snd l of ThrottledFn k \<Rightarrow> k < length (closures st) | _ \<Rightarrow> True)
             (windowListeners st)"
  shows "windowListeners (disconnectedCallback st) = windowListeners st"
proof -
  have "(''resize'', ThrottledFn (length (closures st))) \<notin> set (windowListeners st)"
    using assms by (auto simp: list_all_iff)
  then show ?thesis
    by (simp add: disconnectedCallback_def throttle_def removeEventListeners_def
        removeEventListener_def)
qed

lemma handleMouseDown_suppressed:
  "getTargetElement st = None \<Longrightarrow> handleMouseDown x st = Inr st"
  by (simp add: handleMouseDown_def)

lemma handleMouseDown_rh_unguarded:
  "targetElement_rh st = None \<Longrightarrow>
   handleMouseDown_rh x st = Inr (st\<lparr>backgroundColor := COLOR_HOVER_BG,
     bodyCursor := ''col-resize'', isDragging := True, initialX := x,
     documentListeners := addEventListener ''mouseup'' HandleMouseUpFn
        (addEventListener ''mousemove'' HandleMouseMoveFn (documentListeners st))\<rparr>)"
  by (auto simp: handleMouseDown_rh_def targetElement_rh_def Let_def andThen_def split: if_splits)

lemma initializeFromAttributes_eq:
  "initializeFromAttributes st =
     st\<lparr>minWidth := (case getAttribute st ''min-width'' of None \<Rightarrow> minWidth st
                      | Some v \<Rightarrow> orDefault (parseInt v) 150),
        maxWidthPercent := (case getAttribute st ''max-width-percent'' of
                        None \<Rightarrow> maxWidthPercent st | Some v \<Rightarrow> orDefault (parseInt v) 30),
        defaultWidth := (case getAttribute st ''initial-width'' of None \<Rightarrow> defaultWidth st
                      | Some v \<Rightarrow> orDefault (parseInt v)
                          (case getAttribute st ''min-width'' of None \<Rightarrow> minWidth st
                           | Some v \<Rightarrow> orDefault (parseInt v) 150)),
        resize := (if getAttribute st ''resize'' = Some ''left'' then Some ResizeLeft
                   else if getAttribute st ''resize'' = Some ''right'' then Some ResizeRight
                   else resize st),
        console := (if getAttribute st ''resize'' \<noteq> Some ''left''
                      \<and> getAttribute st ''resize'' \<noteq> Some ''right''
                      \<and> getAttribute st ''resize'' \<noteq> None
                    then console st @
                      [ConsoleError ''Invalid value for resize attribute. Valid values are left or right.'']
                    else console st),
        isCollapsable := hasAttribute st ''collapsable''\<rparr>"
proof -
  define M where "M = (case getAttribute st ''min-width'' of None \<Rightarrow> minWidth st
                      | Some v \<Rightarrow> orDefault (parseInt v) 150)"
  define P where "P = (case getAttribute st ''max-width-percent'' of
                        None \<Rightarrow> maxWidthPercent st | Some v \<Rightarrow> orDefault (parseInt v) 30)"
  define D where "D = (case getAttribute st ''initial-width'' of None \<Rightarrow> defaultWidth st
                      | Some v \<Rightarrow> orDefault (parseInt v) M)"
  define st1 where "st1 = (if hasAttribute st ''min-width''
                 then st\<lparr>minWidth :=
                        orDefault (parseInt (case getAttribute st ''min-width'' of
                                               Some v \<Rightarrow> v | None \<Rightarrow> [])) 150\<rparr>
                 else st)"
  define st2 where "st2 = (if hasAttribute st1 ''max-width-percent''
                 then st1\<lparr>maxWidthPercent :=
                        orDefault (parseInt (case getAttribute st1 ''max-width-percent'' of
                                               Some v \<Rightarrow> v | None \<Rightarrow> [])) 30\<rparr>
                 else st1)"
  define st3 where "st3 = (if hasAttribute st2 ''initial-width''
                 then st2\<lparr>defaultWidth :=
                        orDefault (parseInt (case getAttribute st2 ''initial-width'' of
                                               Some v \<Rightarrow> v | None \<Rightarrow> [])) (minWidth st2)\<rparr>
                 else st2)"
  define st4 where "st4 = (if getAttribute st3 ''resize'' = Some ''left''
                 then st3\<lparr>resize := Some ResizeLeft\<rparr>
                 else if getAttribute st3 ''resize'' = Some ''right''
                 then st3\<lparr>resize := Some ResizeRight\<rparr>
                 else if getAttribute st3 ''resize'' \<noteq> None
                 then st3\<lparr>console := console st3 @
                        [ConsoleError ''Invalid value for resize attribute. Valid values are left or right.'']\<rparr>
                 else st3)"
  have e: "initializeFromAttributes st = st4\<lparr>isCollapsable := hasAttribute st4 ''collapsable''\<rparr>"
    unfolding initializeFromAttributes_def Let_def st4_def st3_def st2_def st1_def ..
  have s1: "st1 = st\<lparr>minWidth := M\<rparr>"
    by (simp add: st1_def M_def hasAttribute_def getAttribute_def split: option.splits)
  have s2: "st2 = st\<lparr>minWidth := M, maxWidthPercent := P\<rparr>"
    by (simp add: st2_def s1 P_def hasAttribute_def getAttribute_def split: option.splits)
  have s3: "st3 = st\<lparr>minWidth := M, maxWidthPercent := P, defaultWidth := D\<rparr>"
    by (simp add: st3_def s2 D_def hasAttribute_def getAttribute_def split: option.splits)
  have s4: "st4 = st\<lparr>minWidth := M, maxWidthPercent := P, defaultWidth := D,
        resize := (if getAttribute st ''resize'' = Some ''left'' then Some ResizeLeft
                   else if getAttribute st ''resize'' = Some ''right'' then Some ResizeRight
                   else resize st),
        console := (if getAttribute st ''resize'' \<noteq> Some ''left''
                      \<and> getAttribute st ''resize'' \<noteq> Some ''right''
                      \<and> getAttribute st ''resize'' \<noteq> None
                    then console st @
                      [ConsoleError ''Invalid value for resize attribute. Valid values are left or right.'']
                    else console st)\<rparr>"
    by (simp add: st4_def s3 getAttribute_def)
  show ?thesis
    unfolding e unfolding s4 unfolding D_def unfolding M_def P_def
    by (simp add: hasAttribute_def)
qed

lemma initializeFromAttributes_fields:
  "minWidth (initializeFromAttributes st) =
      (case getAttribute st ''min-width'' of None \<Rightarrow> minWidth st
       | Some v \<Rightarrow> orDefault (parseInt v) 150)"
  "maxWidthPercent (initializeFromAttributes st) =
      (case getAttribute st ''max-width-percent'' of None \<Rightarrow> maxWidthPercent st
       | Some v \<Rightarrow> orDefault (parseInt v) 30)"
  "defaultWidth (initializeFromAttributes st) =
      (case getAttribute st ''initial-width'' of None \<Rightarrow> defaultWidth st
       | Some v \<Rightarrow> orDefault (parseInt v)
           (case getAttribute st ''min-width'' of None \<Rightarrow> minWidth st
            | Some v \<Rightarrow> orDefault (parseInt v) 150))"
  "listeners (initializeFromAttributes st) = listeners st"
  "documentListeners (initializeFromAttributes st) = documentListeners st"
  "windowListeners (initializeFromAttributes st) = windowListeners st"
  "closures (initializeFromAttributes st) = closures st"
  "timers (initializeFromAttributes st) = timers st"
  by (simp_all add: initializeFromAttributes_eq)

subsection \<open>Listener tables are kept by everything but a press\<close>

lemma wiring_assign [simp]: "wiring (assign t el st) = wiring st"
  by (simp add: wiring_def)

lemma noSession_wiring: "wiring st' = wiring st \<Longrightarrow> noSession st' = noSession st"
  by (simp add: wiring_def noSession_def)

lemma adjustPanelWidth_Some:
  "getTargetElement st = Some t \<Longrightarrow> deref t st = Some el \<Longrightarrow>
   adjustPanelWidth st = Inr
     (if rectWidth el > maxWidth st \<and> maxWidth st > minWidth st
      then assign t (el\<lparr>flexBasis := Some (maxWidth st)\<rparr>) st else st)"
  by (simp add: adjustPanelWidth_def getBoundingClientRectWidth_def setFlexBasis_def andThen_def)

lemma adjustPanelWidth_rh_Some:
  "targetElement_rh st = Some t \<Longrightarrow> deref t st = Some el \<Longrightarrow>
   adjustPanelWidth_rh st = Inr
     (if rectWidth el > maxWidth st \<and> maxWidth st > minWidth st
      then assign t (el\<lparr>flexBasis := Some (maxWidth st)\<rparr>) st else st)"
  by (simp add: adjustPanelWidth_rh_def getBoundingClientRectWidth_def setFlexBasis_def andThen_def)

lemma adjustPanelWidth_wiring:
  assumes "adjustPanelWidth st = Inr st'"
  shows "wiring st' = wiring st"
proof (cases "getTargetElement st")
  case None
  with assms show ?thesis by (simp add: adjustPanelWidth_def)
next
  case (Some t)
  then obtain el where "deref t st = Some el"
    using getTargetElement_deref by blast
  with Some assms show ?thesis
    by (auto simp: adjustPanelWidth_Some split: if_splits)
qed

lemma adjustPanelWidth_rh_wiring:
  assumes "adjustPanelWidth_rh st = Inr st'"
  shows "wiring st' = wiring st"
proof (cases "targetElement_rh st")
  case None
  with assms show ?thesis by (simp add: adjustPanelWidth_rh_def)
next
  case (Some t)
  then obtain el where "deref t st = Some el"
    using targetElement_rh_deref by blast
  with Some assms show ?thesis
    by (auto simp: adjustPanelWidth_rh_Some split: if_splits)
qed

lemma throttled_wiring:
  assumes "\<And>s s'. func s = Inr s' \<Longrightarrow> wiring s' = wiring s"
    and "throttled func limit k now st = Inr st'"
  shows "wiring st' = wiring st"
proof (cases "inThrottle k st")
  case True
  with assms(2) show ?thesis by (simp add: throttled_def)
next
  case False
  with assms(2) obtain s where s: "func st = Inr s"
    and st': "st' = s\<lparr>closures := (closures s)[k := True], timers := timers s @ [(now + limit, k)]\<rparr>"
    by (auto simp: throttled_def andThen_def split: sum.splits)
  from assms(1) [OF s] show ?thesis
    by (simp add: st' wiring_def)
qed

lemma throttled_adjustPanelWidth_wiring:
  "throttled adjustPanelWidth limit k now st = Inr st' \<Longrightarrow> wiring st' = wiring st"
  "throttled adjustPanelWidth_rh limit k now st = Inr st' \<Longrightarrow> wiring st' = wiring st"
  using throttled_wiring [of adjustPanelWidth] adjustPanelWidth_wiring
    throttled_wiring [of adjustPanelWidth_rh] adjustPanelWidth_rh_wiring
  by blast+

lemma runTimers_wiring [simp]: "wiring (runTimers now st) = wiring st"
  by (simp add: runTimers_def wiring_def)

lemma handleMouseMove_wiring:
  assumes "handleMouseMove x st = Inr st'"
  shows "wiring st' = wiring st"
proof (cases "isDragging st \<and> getTargetElement st \<noteq> None")
  case False
  with assms show ?thesis by (auto simp: handleMouseMove_def Let_def split: if_splits)
next
  case True
  then obtain t el where "getTargetElement st = Some t" "deref t st = Some el"
    using getTargetElement_deref by blast
  with True assms show ?thesis
    by (auto simp: handleMouseMove_apply applyWidth_rh_Some wiring_def split: if_splits)
qed

lemma handleMouseMove_rh_wiring:
  assumes "handleMouseMove_rh x st = Inr st'"
  shows "wiring st' = wiring st"
proof (cases "isDragging st \<and> targetElement_rh st \<noteq> None")
  case False
  with assms show ?thesis
    by (auto simp: handleMouseMove_rh_def targetElement_rh_def wiring_def Let_def split: if_splits)
next
  case True
  then obtain t el where "targetElement_rh st = Some t" "deref t st = Some el"
    using targetElement_rh_deref by blast
  with True assms show ?thesis
    by (auto simp: handleMouseMove_rh_apply' applyWidth_rh_Some wiring_def split: if_splits)
qed

lemma invoke_noSession:
  assumes "invoke v f x now st = Inr st'" and "f \<noteq> HandleMouseDownFn" and "noSession st"
  shows "noSession st'"
proof (cases f)
  case HandleMouseEnterFn
  with assms show ?thesis by (auto simp: invoke_def handleMouseEnter_def noSession_def)
next
  case HandleMouseLeaveFn
  with assms show ?thesis by (auto simp: invoke_def handleMouseLeave_def noSession_def)
next
  case HandleMouseDownFn
  with assms show ?thesis by simp
next
  case HandleMouseMoveFn
  with assms(1) have "wiring st' = wiring st"
    by (cases v) (auto simp: invoke_def dest: handleMouseMove_wiring handleMouseMove_rh_wiring)
  with assms(3) show ?thesis
    using noSession_wiring by blast
next
  case HandleMouseUpFn
  with assms show ?thesis
    by (auto simp: invoke_def handleMouseUp_def noSession_def removeEventListener_def)
next
  case (ThrottledFn k)
  with assms(1) have "wiring st' = wiring st"
    by (cases v)
      (auto simp: invoke_def dest: throttled_adjustPanelWidth_wiring)
  with assms(3) show ?thesis
    using noSession_wiring by blast
qed

lemma fire_noSession:
  assumes "fire v ls ty x now st = Inr st'" and "noSession st"
    and "\<forall>l\<in>set ls. fst l = ty \<longrightarrow> snd l \<noteq> HandleMouseDownFn"
  shows "noSession st'"
  using assms
proof (induction ls arbitrary: st)
  case Nil
  then show ?case by simp
next
  case (Cons l ls)
  show ?case
  proof (cases "fst l = ty")
    case False
    with Cons show ?thesis by simp
  next
    case True
    with Cons.prems(1) obtain s where s: "invoke v (snd l) x now st = Inr s"
      and r: "fire v ls ty x now s = Inr st'"
      by (auto simp: andThen_def split: sum.splits)
    from Cons.prems(3) True have "snd l \<noteq> HandleMouseDownFn" by simp
    from invoke_noSession [OF s this Cons.prems(2)] have "noSession s" .
    with Cons.IH [OF r] Cons.prems(3) show ?thesis by simp
  qed
qed


lemma noSession_constructed: "noSession (constructed attrs prev nxt vw)"
  by (simp add: noSession_def constructed_def)

lemma noSession_runTimers [simp]: "noSession (runTimers now st) = noSession st"
  by (rule noSession_wiring) simp

lemma initializeFromAttributes_wiring [simp]:
  "wiring (initializeFromAttributes st) = wiring st"
  by (simp add: wiring_def initializeFromAttributes_fields)

lemma ownListener_add:
  "ownListener (ty, f) \<Longrightarrow> list_all ownListener ls \<Longrightarrow> list_all ownListener (addEventListener ty f ls)"
  by (simp add: addEventListener_def)

lemma noSession_setup:
  "noSession st \<Longrightarrow> noSession (setupEventListeners st)"
  by (simp add: noSession_def setupEventListeners_def ownListener_add ownListener_def)

lemma applyDefaultWidth_wiring:
  "applyDefaultWidth st = Inr st' \<Longrightarrow> wiring st' = wiring st"
  by (auto simp: applyDefaultWidth_def setFlexBasis_def Let_def split: if_splits option.splits)

lemma noSession_throttle_add:
  assumes "noSession st"
  shows "noSession ((snd (throttle st))\<lparr>windowListeners :=
     addEventListener ''resize'' (fst (throttle st)) (windowListeners (snd (throttle st)))\<rparr>)"
  using assms
  by (simp add: noSession_def throttle_def addEventListener_def resizeListener_def)

lemma connectedCallback_noSession:
  assumes "connectedCallback st = Inr st'" and "noSession st"
  shows "noSession st'"
proof -
  let ?s0 = "setupEventListeners (render (initializeFromAttributes st))"
  from assms(1) obtain s1 s2 where 1: "applyDefaultWidth ?s0 = Inr s1"
    and 2: "adjustPanelWidth s1 = Inr s2"
    and 3: "st' = (snd (throttle s2))\<lparr>windowListeners :=
      addEventListener ''resize'' (fst (throttle s2)) (windowListeners (snd (throttle s2)))\<rparr>"
    by (auto simp: connectedCallback_def andThen_def split: sum.splits prod.splits)
  have "wiring (render (initializeFromAttributes st)) = wiring st"
    using initializeFromAttributes_wiring [of st] by (simp add: wiring_def render_def)
  with assms(2) have "noSession (render (initializeFromAttributes st))"
    using noSession_wiring by blast
  then have "noSession ?s0" by (rule noSession_setup)
  with applyDefaultWidth_wiring [OF 1] have "noSession s1"
    using noSession_wiring by blast
  with adjustPanelWidth_wiring [OF 2] have "noSession s2"
    using noSession_wiring by blast
  then show ?thesis unfolding 3 by (rule noSession_throttle_add)
qed

lemma connectedCallback_rh_noSession:
  assumes "connectedCallback_rh st = Inr st'" and "noSession st"
  shows "noSession st'"
proof -
  let ?s0 = "setupEventListeners (render st)"
  from assms(1) obtain s1 where 1: "adjustPanelWidth_rh ?s0 = Inr s1"
    by (auto simp: connectedCallback_rh_def andThen_def split: sum.splits)
  define mid where "mid =
    (if getAttribute s1 ''resize'' = Some ''left'' \<and> previousElementSibling s1 \<noteq> None
     then andThen (setFlexBasis (Some PreviousElementSibling) (defaultWidth s1) s1)
            (\<lambda>s. Inr (s\<lparr>console := console s @
                [ConsoleLog (case previousElementSibling s of
                               None \<Rightarrow> None | Some el \<Rightarrow> flexBasis el)]\<rparr>))
     else if getAttribute s1 ''resize'' = Some ''right'' \<and> nextElementSibling s1 \<noteq> None
     then setFlexBasis (Some NextElementSibling) (defaultWidth s1) s1
     else Inr s1)"
  from assms(1) 1 have "andThen mid (\<lambda>s2. let (f, s3) = throttle s2
               in Inr (s3\<lparr>windowListeners :=
                           addEventListener ''resize'' f (windowListeners s3)\<rparr>)) = Inr st'"
    by (simp add: connectedCallback_rh_def andThen_def mid_def Let_def)
  then obtain s2 where 2: "mid = Inr s2"
    and 3: "st' = (snd (throttle s2))\<lparr>windowListeners :=
      addEventListener ''resize'' (fst (throttle s2)) (windowListeners (snd (throttle s2)))\<rparr>"
    by (auto simp: andThen_def split: sum.splits prod.splits)
  from 2 have w: "wiring s2 = wiring s1"
    unfolding mid_def
    by (auto simp: setFlexBasis_def andThen_def wiring_def assign_def deref_def
        split: if_splits option.splits)
  have "wiring (render st) = wiring st"
    by (simp add: wiring_def render_def)
  with assms(2) have "noSession (render st)"
    using noSession_wiring by blast
  then have "noSession ?s0" by (rule noSession_setup)
  with adjustPanelWidth_rh_wiring [OF 1] have "noSession s1"
    using noSession_wiring by blast
  with w have "noSession s2"
    using noSession_wiring by blast
  then show ?thesis unfolding 3 by (rule noSession_throttle_add)
qed

lemma disconnectedCallback_noSession:
  assumes "noSession st"
  shows "noSession (disconnectedCallback st)"
  using assms
  by (simp add: noSession_def disconnectedCallback_def throttle_def removeEventListeners_def
      removeEventListener_def list_all_iff)

lemma attributeChanged_wiring:
  "attributeChangedCallback name old new (setAttribute name new st) = Inr st' \<Longrightarrow>
     wiring st' = wiring st"
  "attributeChangedCallback_rh name old new (setAttribute name new st) = Inr st' \<Longrightarrow>
     wiring st' = wiring st"
  by (auto simp: attributeChangedCallback_def attributeChangedCallback_rh_def setAttribute_def
      wiring_def Let_def split: if_splits option.splits)


lemma noSession_fire_own:
  assumes "noSession st" and "ty \<noteq> ''mousedown''"
    and "fire v (listeners st) ty x now st = Inr st'"
  shows "noSession st'"
proof -
  have d: "fst l = ''mousedown''" if "ownListener l" "snd l = HandleMouseDownFn" for l
    using that by (cases l) (simp add: ownListener_def)
  from assms(1) have "\<forall>l\<in>set (listeners st). ownListener l"
    by (simp add: noSession_def list_all_iff)
  with assms(2) d have "\<forall>l\<in>set (listeners st). fst l = ty \<longrightarrow> snd l \<noteq> HandleMouseDownFn"
    by blast
  with assms show ?thesis
    using fire_noSession by blast
qed

lemma noSession_fire_window:
  assumes "noSession st" and "fire v (windowListeners st) ty x now st = Inr st'"
  shows "noSession st'"
proof -
  from assms(1) have "\<forall>l\<in>set (windowListeners st). resizeListener l"
    by (simp add: noSession_def list_all_iff)
  then have "\<forall>l\<in>set (windowListeners st). fst l = ty \<longrightarrow> snd l \<noteq> HandleMouseDownFn"
    by (auto simp: resizeListener_def)
  with assms show ?thesis
    using fire_noSession by blast
qed

lemma noSession_fire_document:
  assumes "noSession st"
  shows "fire v (documentListeners st) ty x now st = Inr st"
  using assms by (simp add: noSession_def)

lemma deliver_noSession:
  assumes "deliver v ev now st = Inr st'" and "\<not> isMouseDown ev" and "noSession st"
  shows "noSession st'"
proof (cases ev)
  case Connected
  with assms show ?thesis
    by (cases v)
      (auto simp: deliver_def dest: connectedCallback_noSession connectedCallback_rh_noSession)
next
  case Disconnected
  with assms show ?thesis
    by (auto simp: deliver_def disconnectedCallback_noSession)
next
  case (AttributeChanged name newValue)
  have "wiring (setAttribute name newValue st) = wiring st"
    by (simp add: setAttribute_def wiring_def)
  with AttributeChanged assms(1) have "wiring st' = wiring st"
    by (cases v) (auto simp: deliver_def Let_def dest: attributeChanged_wiring split: if_splits)
  with assms(3) show ?thesis
    using noSession_wiring by blast
next
  case MouseEnter
  with assms show ?thesis
    using noSession_fire_own [of st "''mouseenter''" v 0 now st'] by (simp add: deliver_def)
next
  case MouseLeave
  with assms show ?thesis
    using noSession_fire_own [of st "''mouseleave''" v 0 now st'] by (simp add: deliver_def)
next
  case (MouseDown clientX)
  with assms show ?thesis by simp
next
  case (MouseMove clientX)
  with assms show ?thesis
    by (simp add: deliver_def noSession_fire_document)
next
  case MouseUp
  with assms show ?thesis
    by (simp add: deliver_def noSession_fire_document)
next
  case Resize
  with assms show ?thesis
    using noSession_fire_window [of st v "''resize''" 0 now st'] by (simp add: deliver_def)
qed

lemma run_noSession:
  assumes "run v evs st = Inr st'" and "\<forall>e\<in>set evs. \<not> isMouseDown (fst e)" and "noSession st"
  shows "noSession st'"
  using assms
proof (induction evs arbitrary: st)
  case Nil
  then show ?case by simp
next
  case (Cons e evs)
  from Cons.prems(1) obtain s where s: "step v (fst e) (snd e) st = Inr s"
    and r: "run v evs s = Inr st'"
    by (auto simp: andThen_def split: sum.splits)
  from s Cons.prems(2,3) have "noSession s"
    using deliver_noSession [of v "fst e" "snd e" "runTimers (snd e) st" s]
    by (simp add: step_def)
  with Cons.IH [OF r] Cons.prems(2) show ?case by simp
qed

subsection \<open>Mounting, the reactor and the timers\<close>

lemma gate_assign [simp]: "gate (assign t el st) = gate st"
  by (cases t) (simp_all add: gate_def assign_def)








lemma length_fold_reset [simp]:
  "length (fold (\<lambda>t cs. cs[snd t := False]) ts cs) = length cs"
  by (induction ts arbitrary: cs) auto


section \<open>The specification's claims\<close>





text \<open>
  C2, as the code has it: the two tests of the collapse policy run one after the other
  on every drag-move of a collapsible handle. When the candidate width is above 50 and
  either at most \<open>minWidth\<close> or the panel was collapsed, the target ends shown
  (\<open>display: block\<close>) with the flag false. Otherwise, when the candidate is at most
  \<open>minWidth\<close> (hence at most 50), the target ends hidden with the flag true. Otherwise
  neither changes.
\<close>

theorem C2_collapse_policy:
  "(isDragging st \<and> isCollapsable st \<and> getTargetElement st = Some t \<longrightarrow>
      (\<exists>st' el el'. deref t st = Some el \<and> handleMouseMove x st = Inr st'
         \<and> deref t st' = Some el'
         \<and> (if newWidth x st > 50 \<and> (newWidth x st \<le> minWidth st \<or> isPanelCollapsed st)
            then display el' = ''block'' \<and> \<not> isPanelCollapsed st'
            else if newWidth x st \<le> minWidth st
            then display el' = ''none'' \<and> isPanelCollapsed st'
            else display el' = display el \<and> isPanelCollapsed st' = isPanelCollapsed st)))
   \<and> (isDragging st \<and> isCollapsable st \<and> targetElement_rh st = Some t \<longrightarrow>
      (\<exists>st' el el'. deref t st = Some el \<and> handleMouseMove_rh x st = Inr st'
         \<and> deref t st' = Some el'
         \<and> (if newWidth_rh t x st > 50
                 \<and> (newWidth_rh t x st \<le> minWidth st \<or> isPanelCollapsed st)
            then display el' = ''block'' \<and> \<not> isPanelCollapsed st'
            else if newWidth_rh t x st \<le> minWidth st
            then display el' = ''none'' \<and> isPanelCollapsed st'
            else display el' = display el \<and> isPanelCollapsed st' = isPanelCollapsed st)))"
proof (intro conjI impI)
  assume a: "isDragging st \<and> isCollapsable st \<and> getTargetElement st = Some t"
  then obtain el where "deref t st = Some el"
    using getTargetElement_deref by blast
  with a show "\<exists>st' el el'. deref t st = Some el \<and> handleMouseMove x st = Inr st'
         \<and> deref t st' = Some el'
         \<and> (if newWidth x st > 50 \<and> (newWidth x st \<le> minWidth st \<or> isPanelCollapsed st)
            then display el' = ''block'' \<and> \<not> isPanelCollapsed st'
            else if newWidth x st \<le> minWidth st
            then display el' = ''none'' \<and> isPanelCollapsed st'
            else display el' = display el \<and> isPanelCollapsed st' = isPanelCollapsed st)"
    by (auto simp: handleMouseMove_apply applyWidth_rh_Some reshown_def hidden_def)
next
  assume a: "isDragging st \<and> isCollapsable st \<and> targetElement_rh st = Some t"
  then obtain el where "deref t st = Some el"
    using targetElement_rh_deref by blast
  with a show "\<exists>st' el el'. deref t st = Some el \<and> handleMouseMove_rh x st = Inr st'
         \<and> deref t st' = Some el'
         \<and> (if newWidth_rh t x st > 50
                 \<and> (newWidth_rh t x st \<le> minWidth st \<or> isPanelCollapsed st)
            then display el' = ''block'' \<and> \<not> isPanelCollapsed st'
            else if newWidth_rh t x st \<le> minWidth st
            then display el' = ''none'' \<and> isPanelCollapsed st'
            else display el' = display el \<and> isPanelCollapsed st' = isPanelCollapsed st)"
    by (auto simp: handleMouseMove_rh_apply' applyWidth_rh_Some reshown_def hidden_def)
qed

theorem C2_collapse_policy_witness:
  "displayOf PreviousElementSibling (handleMouseMove 260 (collapsedLeft 2000)) = Some ''block''
   \<and> observe isPanelCollapsed (handleMouseMove 260 (collapsedLeft 2000)) = Some False
   \<and> displayOf PreviousElementSibling (handleMouseMove_rh 280 (collapsedLeft 2000)) = Some ''block''
   \<and> observe isPanelCollapsed (handleMouseMove_rh 280 (collapsedLeft 2000)) = Some False
   \<and> displayOf PreviousElementSibling (handleMouseMove 240 (collapsedLeft 2000)) = Some ''none''
   \<and> observe isPanelCollapsed (handleMouseMove 240 (collapsedLeft 2000)) = Some True"
  using C2_collapse_policy [of "collapsedLeft 2000" PreviousElementSibling 260]
    C2_collapse_policy [of "collapsedLeft 2000" PreviousElementSibling 280]
    C2_collapse_policy [of "collapsedLeft 2000" PreviousElementSibling 240]
  by (auto simp: collapsedLeft_facts displayOf_def observe_def)

text \<open>
  C2 as stated fails. With \<open>minWidth\<close> 150 and the panel collapsed by a move to
  candidate width 40, a move to candidate width 60 shows the panel again and clears the
  flag; and a move of a shown panel to candidate width 140 leaves it shown with the flag
  false.
\<close>

theorem C2_counterexample:
  "displayOf PreviousElementSibling
     (run Component [(Connected, 0), (MouseDown 500, 10), (MouseMove 240, 20)]
        (collapsableLeft 2000)) = Some ''none''
   \<and> observe isPanelCollapsed
     (run Component [(Connected, 0), (MouseDown 500, 10), (MouseMove 240, 20)]
        (collapsableLeft 2000)) = Some True
   \<and> displayOf PreviousElementSibling
     (run Component [(Connected, 0), (MouseDown 500, 10), (MouseMove 240, 20), (MouseMove 260, 30)]
        (collapsableLeft 2000)) = Some ''block''
   \<and> observe isPanelCollapsed
     (run Component [(Connected, 0), (MouseDown 500, 10), (MouseMove 240, 20), (MouseMove 260, 30)]
        (collapsableLeft 2000)) = Some False
   \<and> displayOf PreviousElementSibling
     (run Component [(Connected, 0), (MouseDown 500, 10), (MouseMove 340, 20)]
        (collapsableLeft 2000)) = Some ''block''
   \<and> observe isPanelCollapsed
     (run Component [(Connected, 0), (MouseDown 500, 10), (MouseMove 340, 20)]
        (collapsableLeft 2000)) = Some False"
  by code_simp

text \<open>
  C3 fails on the code: \<open>disconnectedCallback\<close> passes a newly created throttled
  function to \<open>removeEventListener\<close>, which is not the object registered at mount. After
  mount and unmount the resize listener registered at mount is still on the window, in
  both versions, while the element's own listeners are gone; a later window resize still
  runs it and writes the sibling's width.
\<close>

theorem C3_resize_listener_remains:
  "observe windowListeners (run Component [(Connected, 0)] (collapsableLeft 2000))
     = Some [(''resize'', ThrottledFn 0)]
   \<and> observe windowListeners
       (run Component [(Connected, 0), (Disconnected, 1000)] (collapsableLeft 2000))
     = Some [(''resize'', ThrottledFn 0)]
   \<and> observe windowListeners
       (run ResizeHandlers [(Connected, 0), (Disconnected, 1000)] (collapsableLeft 2000))
     = Some [(''resize'', ThrottledFn 0)]
   \<and> observe listeners
       (run Component [(Connected, 0), (Disconnected, 1000)] (collapsableLeft 2000))
     = Some []
   \<and> flexBasisOf PreviousElementSibling
       (run Component [(Connected, 0), (Disconnected, 1000), (Resize, 2000)]
          ((collapsableLeft 2000)\<lparr>innerWidth := 600\<rparr>))
     = Some 180"
  by code_simp





text \<open>
  C5: on a drag-move that resolves a target, the candidate width is the base width plus
  the pointer delta when the direction is left and the base width minus the delta when it
  is right, in both versions; the width written is the clamp of that candidate. With
  direction right, base 300 and delta -50 the candidate is 350; with direction left it
  is 250.
\<close>

theorem C5_candidate_width:
  "(isDragging st \<and> getTargetElement st = Some t \<longrightarrow>
      (resize st = Some ResizeLeft \<and> newWidth x st = currentSiblingWidth st + (x - initialX st)
       \<or> resize st = Some ResizeRight \<and> newWidth x st = currentSiblingWidth st - (x - initialX st))
      \<and> (\<exists>st' el. handleMouseMove x st = Inr st' \<and> deref t st' = Some el
             \<and> flexBasis el = Some (max (minWidth st) (min (newWidth x st) (maxWidth st)))))
   \<and> (isDragging st \<and> targetElement_rh st = Some t \<longrightarrow>
      getAttribute st ''resize'' = Some ''left''
        \<and> handleMouseMove_rh x st =
            applyWidth_rh (Some t) (currentSiblingWidth st + (x - initialX st)) st
      \<or> getAttribute st ''resize'' = Some ''right''
        \<and> handleMouseMove_rh x st =
            applyWidth_rh (Some t) (currentSiblingWidth st - (x - initialX st)) st)"
proof (intro conjI impI)
  assume a: "isDragging st \<and> getTargetElement st = Some t"
  then show "resize st = Some ResizeLeft \<and> newWidth x st = currentSiblingWidth st + (x - initialX st)
       \<or> resize st = Some ResizeRight \<and> newWidth x st = currentSiblingWidth st - (x - initialX st)"
    by (auto simp: getTargetElement_def newWidth_def split: if_splits)
  from a obtain el where "deref t st = Some el"
    using getTargetElement_deref by blast
  with a show "\<exists>st' el. handleMouseMove x st = Inr st' \<and> deref t st' = Some el
             \<and> flexBasis el = Some (max (minWidth st) (min (newWidth x st) (maxWidth st)))"
    by (simp add: handleMouseMove_apply applyWidth_rh_Some)
next
  assume "isDragging st \<and> targetElement_rh st = Some t"
  then show "getAttribute st ''resize'' = Some ''left''
        \<and> handleMouseMove_rh x st =
            applyWidth_rh (Some t) (currentSiblingWidth st + (x - initialX st)) st
      \<or> getAttribute st ''resize'' = Some ''right''
        \<and> handleMouseMove_rh x st =
            applyWidth_rh (Some t) (currentSiblingWidth st - (x - initialX st)) st"
    by (auto simp: handleMouseMove_rh_def targetElement_rh_def Let_def split: if_splits)
qed

theorem C5_candidate_width_witness:
  "newWidth 450 (draggingRight 2000) = 350
   \<and> flexBasisOf NextElementSibling (handleMouseMove 450 (draggingRight 2000)) = Some 350
   \<and> flexBasisOf NextElementSibling (handleMouseMove_rh 450 (draggingRight 2000)) = Some 350
   \<and> newWidth 450 (draggingLeft 2000) = 250
   \<and> flexBasisOf PreviousElementSibling (handleMouseMove 450 (draggingLeft 2000)) = Some 250
   \<and> flexBasisOf PreviousElementSibling (handleMouseMove_rh 450 (draggingLeft 2000)) = Some 250"
proof -
  have r: "isDragging (draggingRight 2000)"
      "getTargetElement (draggingRight 2000) = Some NextElementSibling"
      "targetElement_rh (draggingRight 2000) = Some NextElementSibling"
      "deref NextElementSibling (draggingRight 2000) = Some examplePanel"
    and l: "isDragging (draggingLeft 2000)"
      "getTargetElement (draggingLeft 2000) = Some PreviousElementSibling"
      "targetElement_rh (draggingLeft 2000) = Some PreviousElementSibling"
      "deref PreviousElementSibling (draggingLeft 2000) = Some examplePanel"
    by (simp_all add: draggingRight_def draggingLeft_def constructed_def getTargetElement_def
        targetElement_rh_def getAttribute_def deref_def)
  have v: "newWidth 450 (draggingRight 2000) = 350" "newWidth 450 (draggingLeft 2000) = 250"
      "minWidth (draggingRight 2000) = 150" "minWidth (draggingLeft 2000) = 150"
      "currentSiblingWidth (draggingRight 2000) = 300" "initialX (draggingRight 2000) = 500"
      "currentSiblingWidth (draggingLeft 2000) = 300" "initialX (draggingLeft 2000) = 500"
      "\<not> isCollapsable (draggingRight 2000)" "\<not> isCollapsable (draggingLeft 2000)"
      "getAttribute (draggingRight 2000) ''resize'' = Some ''right''"
      "getAttribute (draggingLeft 2000) ''resize'' = Some ''left''"
    by (simp_all add: draggingRight_def draggingLeft_def constructed_def newWidth_def getAttribute_def)
  show ?thesis
    using C5_candidate_width [of "draggingRight 2000" NextElementSibling 450]
      C5_candidate_width [of "draggingLeft 2000" PreviousElementSibling 450]
    by (auto simp: r l v example_maxWidth flexBasisOf_def applyWidth_rh_Some reshown_def hidden_def)
qed

text \<open>
  C6 fails on \<open>handlers/resizeHandlers.ts\<close>: its \<open>handleMouseDown\<close> has no guard. A
  press on a handle with no \<open>resize\<close> attribute and no siblings sets \<open>isDragging\<close>,
  records the pointer position and registers the document listeners. The component
  returns early there (lemma \<open>handleMouseDown_suppressed\<close>) and stays idle.
\<close>

theorem C6_mousedown_without_target_rh:
  "observe isDragging
     (run ResizeHandlers [(Connected, 0), (MouseDown 500, 10)] (constructed [] None None 2000))
     = Some True
   \<and> observe initialX
       (run ResizeHandlers [(Connected, 0), (MouseDown 500, 10)] (constructed [] None None 2000))
     = Some 500
   \<and> observe documentListeners
       (run ResizeHandlers [(Connected, 0), (MouseDown 500, 10)] (constructed [] None None 2000))
     = Some [(''mousemove'', HandleMouseMoveFn), (''mouseup'', HandleMouseUpFn)]
   \<and> observe isDragging
       (run Component [(Connected, 0), (MouseDown 500, 10)] (constructed [] None None 2000))
     = Some False
   \<and> observe documentListeners
       (run Component [(Connected, 0), (MouseDown 500, 10)] (constructed [] None None 2000))
     = Some []"
  by code_simp

text \<open>
  C7: when no target element resolves, for instance because the sibling was removed
  during a drag, the move handler returns normally in both versions. The component leaves
  the page as it is; \<open>handlers/resizeHandlers.ts\<close> only prints an error message while
  dragging. Neither touches an element.
\<close>

theorem C7_move_without_target:
  "(getTargetElement st = None \<longrightarrow> handleMouseMove x st = Inr st)
   \<and> (targetElement_rh st = None \<longrightarrow>
        handleMouseMove_rh x st = Inr
          (if isDragging st
           then st\<lparr>console := console st @
             [ConsoleError ''invalid attribute value; valid attribute value for resize: left | right'']\<rparr>
           else st))"
  by (auto simp: handleMouseMove_def handleMouseMove_rh_def targetElement_rh_def Let_def
      split: if_splits)

theorem C7_move_without_target_witness:
  "handleMouseMove 450 ((draggingLeft 2000)\<lparr>previousElementSibling := None\<rparr>)
     = Inr ((draggingLeft 2000)\<lparr>previousElementSibling := None\<rparr>)
   \<and> observe isDragging
       (handleMouseMove_rh 450 ((draggingLeft 2000)\<lparr>previousElementSibling := None\<rparr>)) = Some True
   \<and> displayOf PreviousElementSibling
       (handleMouseMove_rh 450 ((draggingLeft 2000)\<lparr>previousElementSibling := None\<rparr>)) = None"
  using C7_move_without_target [of "(draggingLeft 2000)\<lparr>previousElementSibling := None\<rparr>" 450]
  by (simp add: draggingLeft_def constructed_def getTargetElement_def targetElement_rh_def
      getAttribute_def observe_def displayOf_def deref_def)

text \<open>
  C8: after any run of events from construction that contains no press on the handle, a
  pointer-up event is delivered to no listener: it raises nothing and leaves the whole
  page as it is, in both versions. (\<open>handleMouseUp\<close> is registered on the document only
  by \<open>handleMouseDown\<close>.) The handler itself is idempotent.
\<close>

theorem C8_mouseup_without_mousedown:
  assumes "\<forall>e\<in>set evs. \<not> isMouseDown (fst e)"
    and "run v evs (constructed attrs prev nxt vw) = Inr st"
  shows "deliver v MouseUp now st = Inr st
         \<and> step v MouseUp now st = Inr (runTimers now st)
         \<and> handleMouseUp (handleMouseUp st) = handleMouseUp st"
proof -
  from run_noSession [OF assms(2) assms(1) noSession_constructed]
  have n: "noSession st" .
  then have "deliver v MouseUp now st = Inr st"
    by (simp add: deliver_def noSession_fire_document)
  moreover from n have "noSession (runTimers now st)" by simp
  then have "step v MouseUp now st = Inr (runTimers now st)"
    by (simp add: step_def deliver_def noSession_fire_document)
  moreover have "handleMouseUp (handleMouseUp st) = handleMouseUp st"
    by (simp add: handleMouseUp_def removeEventListener_def)
  ultimately show ?thesis by simp
qed

lemma idleTrace_runs:
  "observe isDragging (run Component idleTrace (collapsableLeft 600)) = Some False"
  "observe backgroundColor (run Component idleTrace (collapsableLeft 600)) = Some COLOR_HOVER_BG"
  "observe isDragging (run ResizeHandlers idleTrace (collapsableLeft 600)) = Some False"
  by code_simp+

theorem C8_mouseup_without_mousedown_witness:
  "(case run Component idleTrace (collapsableLeft 600) of Inl e \<Rightarrow> False
    | Inr st \<Rightarrow> deliver Component MouseUp 90 st = Inr st \<and> \<not> isDragging st
        \<and> backgroundColor st = COLOR_HOVER_BG)
   \<and> (case run ResizeHandlers idleTrace (collapsableLeft 600) of Inl e \<Rightarrow> False
    | Inr st \<Rightarrow> deliver ResizeHandlers MouseUp 90 st = Inr st \<and> \<not> isDragging st)"
proof -
  have t: "\<forall>e\<in>set idleTrace. \<not> isMouseDown (fst e)"
    by (simp add: idleTrace_def)
  obtain a where a: "run Component idleTrace (collapsableLeft 600) = Inr a"
    using idleTrace_runs(1) by (auto simp: observe_def split: sum.splits)
  obtain b where b: "run ResizeHandlers idleTrace (collapsableLeft 600) = Inr b"
    using idleTrace_runs(3) by (auto simp: observe_def split: sum.splits)
  from a b idleTrace_runs
    C8_mouseup_without_mousedown [OF t a [unfolded collapsableLeft_def], of 90]
    C8_mouseup_without_mousedown [OF t b [unfolded collapsableLeft_def], of 90]
  show ?thesis
    by (simp add: observe_def)
qed

text \<open>
  C9, as the code has it: each of \<open>min-width\<close>, \<open>max-width-percent\<close> and
  \<open>initial-width\<close> that is present is parsed by \<open>parseInt\<close>, and the default (150, 30,
  and the resolved \<open>minWidth\<close>) is substituted when the result is \<open>NaN\<close> or zero; every
  other parsed integer is used. An absent attribute leaves the field as the constructor
  set it. \<open>handlers/resizeHandlers.ts\<close> applies the same rule in
  \<open>attributeChangedCallback\<close>, where the third attribute is called \<open>default-width\<close>.
\<close>

theorem C9_numeric_attributes:
  "(getAttribute st ''min-width'' = Some a \<longrightarrow>
      minWidth (initializeFromAttributes st) =
        (case parseInt a of None \<Rightarrow> 150 | Some n \<Rightarrow> if n = 0 then 150 else of_int n))
   \<and> (getAttribute st ''max-width-percent'' = Some b \<longrightarrow>
      maxWidthPercent (initializeFromAttributes st) =
        (case parseInt b of None \<Rightarrow> 30 | Some n \<Rightarrow> if n = 0 then 30 else of_int n))
   \<and> (getAttribute st ''initial-width'' = Some c \<longrightarrow>
      defaultWidth (initializeFromAttributes st) =
        (case parseInt c of None \<Rightarrow> minWidth (initializeFromAttributes st)
         | Some n \<Rightarrow> if n = 0 then minWidth (initializeFromAttributes st) else of_int n))
   \<and> (getAttribute st ''min-width'' = None \<longrightarrow>
        minWidth (initializeFromAttributes st) = minWidth st)
   \<and> (getAttribute st ''max-width-percent'' = None \<longrightarrow>
        maxWidthPercent (initializeFromAttributes st) = maxWidthPercent st)
   \<and> (getAttribute st ''initial-width'' = None \<longrightarrow>
        defaultWidth (initializeFromAttributes st) = defaultWidth st)
   \<and> attributeChangedCallback_rh ''min-width'' oldValue (Some a) st = Inr
        (st\<lparr>minWidth :=
           (case parseInt a of None \<Rightarrow> 150 | Some n \<Rightarrow> if n = 0 then 150 else of_int n)\<rparr>)
   \<and> attributeChangedCallback_rh ''max-width-percent'' oldValue (Some b) st = Inr
        (st\<lparr>maxWidthPercent :=
           (case parseInt b of None \<Rightarrow> 30 | Some n \<Rightarrow> if n = 0 then 30 else of_int n)\<rparr>)
   \<and> attributeChangedCallback_rh ''default-width'' oldValue (Some c) st = Inr
        (st\<lparr>defaultWidth :=
           (case parseInt c of None \<Rightarrow> minWidth st
            | Some n \<Rightarrow> if n = 0 then minWidth st else of_int n)\<rparr>)"
proof -
  note f = initializeFromAttributes_fields(1-3) [of st]
  show ?thesis
    unfolding f
    by (simp add: attributeChangedCallback_rh_def orDefault_def split: option.splits)
qed





theorem C9_numeric_attributes_witness:
  "minWidth (initializeFromAttributes
      (constructed [(''min-width'', ''200''), (''max-width-percent'', ''abc''),
                    (''initial-width'', ''12px'')] None None 2000)) = 200
   \<and> maxWidthPercent (initializeFromAttributes
      (constructed [(''min-width'', ''200''), (''max-width-percent'', ''abc''),
                    (''initial-width'', ''12px'')] None None 2000)) = 30
   \<and> defaultWidth (initializeFromAttributes
      (constructed [(''min-width'', ''200''), (''max-width-percent'', ''abc''),
                    (''initial-width'', ''12px'')] None None 2000)) = 12
   \<and> defaultWidth (initializeFromAttributes
      (constructed [(''min-width'', ''200'')] None None 2000)) = 150"
proof -
  have v: "parseInt ''200'' = Some 200" "parseInt ''abc'' = None" "parseInt ''12px'' = Some 12"
    by (simp_all add: parseInt_def isWhiteSpace_def digitValue_def)
  show ?thesis
    using C9_numeric_attributes [of
        "constructed [(''min-width'', ''200''), (''max-width-percent'', ''abc''),
                      (''initial-width'', ''12px'')] None None 2000"
        "''200''" "''abc''" "''12px''"]
      C9_numeric_attributes [of "constructed [(''min-width'', ''200'')] None None 2000"
        "''200''" "''abc''" "''12px''"]
    by (simp add: getAttribute_def constructed_def v)
qed

text \<open>
  C9 as stated fails: the value \<open>0\<close> parses to the integer zero, and the default is
  substituted all the same.
\<close>

theorem C9_counterexample:
  "parseInt ''0'' = Some 0
   \<and> minWidth (initializeFromAttributes
        (constructed [(''min-width'', ''0'')] None None 2000)) = 150
   \<and> maxWidthPercent (initializeFromAttributes
        (constructed [(''max-width-percent'', ''0'')] None None 2000)) = 30
   \<and> defaultWidth (initializeFromAttributes
        (constructed [(''min-width'', ''200''), (''initial-width'', ''0'')] None None 2000)) = 200
   \<and> observe minWidth (attributeChangedCallback_rh ''min-width'' None (Some ''0'')
        (constructed [] None None 2000)) = Some 150"
  by code_simp

text \<open>
  C10 fails on \<open>handlers/resizeHandlers.ts\<close>: when the observed attribute
  \<open>collapsable\<close> is removed, \<open>attributeChangedCallback\<close> receives \<open>null\<close> as the new
  value and \<open>newValue.toLowerCase()\<close> throws a \<open>TypeError\<close>, whatever the state.
\<close>

theorem C10_attribute_removal_throws:
  "attributeChangedCallback_rh ''collapsable'' oldValue None st = Inl TypeError"
  by (simp add: attributeChangedCallback_rh_def)

lemma attribute_removal_run:
  "run ResizeHandlers
     [(AttributeChanged ''collapsable'' (Some ''true''), 0), (Connected, 1),
      (AttributeChanged ''collapsable'' None, 2)]
     (constructed [] (Some examplePanel) None 2000) = Inl TypeError"
  by code_simp

end
